theory Spec2Isabelle
  imports Complex_Main "HOL-Library.Sublist" "HOL-Library.Word"
begin

section \<open>Values of the program\<close>

text \<open>
  The repository is one TypeScript file, \<^verbatim>\<open>a1-solution.ts\<close>, of eight independent
  utilities. Its values are modelled as follows.
  \<^item> A \<^verbatim>\<open>number\<close> that is only stored and compared (a price, a rating, a year) is a
    \<^typ>\<open>real\<close>: the finite numbers, whose order is the order of the reals.
  \<^item> The functions that compute with numbers are polymorphic in the type of numbers.
    A product of two numbers is rounded and may overflow, so it is not the product of the
    reals: \<open>squareAsync\<close> uses of the type only its comparison, its zero and its
    product, and \<open>processValue\<close> only its product and the conversion \<open>Number\<close> of a
    natural number, which is a parameter. No law is assumed of any of them, so what is
    proved holds of the platform's numbers with the platform's arithmetic.
  \<^item> A \<^verbatim>\<open>string\<close> that is only carried (a title, a name, a printed line) is a
    \<^typ>\<open>string\<close>. Where a function works on the contents of a string, the string is
    the list of its 16-bit code units, so that \<^verbatim>\<open>.length\<close> is \<^const>\<open>length\<close>.
  \<^item> An object literal type or interface is a record.
  \<^item> An array is a mutable object that is passed by reference. The two functions whose
    contract speaks of fresh or unchanged arrays run on an explicit heap of arrays.
\<close>

type_synonym number = real

section \<open>Arrays on a heap\<close>

text \<open>
  The heap is the list of all arrays allocated so far; a reference is an index into
  it. Allocation appends, so that a new reference is one that was not present before.
\<close>

type_synonym ref = nat
type_synonym 'a heap = "'a list list"

definition present :: "'a heap \<Rightarrow> ref \<Rightarrow> bool" where
  "present h r = (r < length h)"

definition new_Array :: "'a heap \<Rightarrow> ref \<times> 'a heap" where
  "new_Array h = (length h, h @ [[]])"

definition push :: "ref \<Rightarrow> 'a \<Rightarrow> 'a heap \<Rightarrow> 'a heap" where
  "push r v h = h[r := h ! r @ [v]]"

text \<open>
  The loop shared by the array built-ins that copy: for each index \<open>k\<close> of \<open>src\<close> below
  the length read at the start, the element is read from the current heap and, when the
  predicate accepts it, pushed onto the array \<open>A\<close>.
\<close>

definition copy_elements :: "('a \<Rightarrow> bool) \<Rightarrow> ref \<Rightarrow> ref \<Rightarrow> 'a heap \<Rightarrow> 'a heap" where
  "copy_elements p src A h =
     fold (\<lambda>k hk. let v = hk ! src ! k in if p v then push A v hk else hk)
       [0..<length (h ! src)] h"

text \<open>
  \<^verbatim>\<open>src.filter(p)\<close>: a new array receives the accepted elements of \<open>src\<close>, in index
  order. \<^verbatim>\<open>r.concat(a)\<close>: a new array receives the elements of \<open>r\<close>, then those
  of \<open>a\<close>.
\<close>

definition Array_filter :: "('a \<Rightarrow> bool) \<Rightarrow> ref \<Rightarrow> 'a heap \<Rightarrow> ref \<times> 'a heap" where
  "Array_filter p src h =
     (let (A, h1) = new_Array h in (A, copy_elements p src A h1))"

definition Array_concat :: "ref \<Rightarrow> ref \<Rightarrow> 'a heap \<Rightarrow> ref \<times> 'a heap" where
  "Array_concat r a h =
     (let (A, h1) = new_Array h;
          h2 = copy_elements (\<lambda>_. True) r A h1
      in (A, copy_elements (\<lambda>_. True) a A h2))"

section \<open>filterByRating\<close>

text \<open>
  \<^verbatim>\<open>
  function filterByRating(items: { title: string; rating: number }[]) {
      return items.filter(item => item.rating >= 4);
  }
  \<close>
\<close>

record rated_item =
  title :: string
  rating :: number

definition filterByRating :: "ref \<Rightarrow> rated_item heap \<Rightarrow> ref \<times> rated_item heap" where
  "filterByRating items h = Array_filter (\<lambda>item. rating item \<ge> 4) items h"

section \<open>concatenateArrays\<close>

text \<open>
  \<^verbatim>\<open>
  function concatenateArrays<T>(...arrays: T[][]): T[] {
      let result: T[] = [];
      for (let array of arrays) {
          result = result.concat(array);
      }
      return result;
  }
  \<close>
  The rest parameter is the list of the references passed.
\<close>

definition concatenateArrays :: "ref list \<Rightarrow> 'a heap \<Rightarrow> ref \<times> 'a heap" where
  "concatenateArrays arrays h =
     fold (\<lambda>array (result, hk). Array_concat result array hk) arrays (new_Array h)"

section \<open>formatString\<close>

text \<open>
  \<^verbatim>\<open>
  function formatString(input: string, toUpper?: boolean): string {
      if (toUpper === false) {
          return input.toLowerCase();
      }
      return input.toUpperCase();
  }
  \<close>
  The optional parameter is a \<^typ>\<open>bool option\<close>, \<^const>\<open>None\<close> when the argument is
  omitted. The two case conversions are the platform's and not part of the repository:
  they are the parameters \<open>toLowerCase\<close> and \<open>toUpperCase\<close>.
\<close>

type_synonym code_unit = "16 word"
type_synonym js_string = "code_unit list"

definition formatString ::
  "(js_string \<Rightarrow> js_string) \<Rightarrow> (js_string \<Rightarrow> js_string) \<Rightarrow> js_string \<Rightarrow> bool option
   \<Rightarrow> js_string" where
  "formatString toLowerCase toUpperCase input toUpper =
     (if toUpper = Some False then toLowerCase input else toUpperCase input)"

text \<open>
  A string literal of characters below 256 as the list of its code units, and the case
  conversions on strings of ASCII characters, where they shift the letters \<open>A\<close> to \<open>Z\<close>
  and \<open>a\<close> to \<open>z\<close> by 32. They instantiate the parameters on concrete ASCII strings.
\<close>

definition code_units :: "string \<Rightarrow> js_string" where
  "code_units cs = map (\<lambda>c. of_nat (of_char c)) cs"

definition ascii_lower_unit :: "code_unit \<Rightarrow> code_unit" where
  "ascii_lower_unit u = (if 0x41 \<le> u \<and> u \<le> 0x5A then u + 0x20 else u)"

definition ascii_upper_unit :: "code_unit \<Rightarrow> code_unit" where
  "ascii_upper_unit u = (if 0x61 \<le> u \<and> u \<le> 0x7A then u - 0x20 else u)"

definition ascii_toLowerCase :: "js_string \<Rightarrow> js_string" where
  "ascii_toLowerCase s = map ascii_lower_unit s"

definition ascii_toUpperCase :: "js_string \<Rightarrow> js_string" where
  "ascii_toUpperCase s = map ascii_upper_unit s"

section \<open>Vehicle and Car\<close>

text \<open>
  \<^verbatim>\<open>
  class Vehicle {
      private make: string;
      private year: number;
      constructor(make: string, year: number) { this.make = make; this.year = year; }
      public getInfo(): void { console.log(`Make: ${this.make}, Year: ${this.year}`); }
  }
  class Car extends Vehicle {
      private model: string;
      constructor(make: string, year: number, model: string) { super(make, year); this.model = model; }
      public getModel(): void { console.log(`Model: ${this.model}`); }
  }
  \<close>
  The subclass is the record extension, so that \<open>getInfo\<close>, defined once on every
  extension of \<open>Vehicle\<close>, is the method a \<open>Car\<close> inherits. The console is the list of
  the lines printed so far. A template literal renders a number with the platform's
  number-to-string conversion, which is not part of the repository: it is the
  parameter \<open>ToString\<close>. The field \<open>make\<close> is written \<open>make'\<close>, the plain name being taken by
  the record's own constructor function.
\<close>

record Vehicle =
  make' :: string
  year :: number

record Car = Vehicle +
  model :: string

type_synonym console = "string list"

definition console_log :: "string \<Rightarrow> console \<Rightarrow> console" where
  "console_log line out = out @ [line]"

definition new_Vehicle :: "string \<Rightarrow> number \<Rightarrow> Vehicle" where
  "new_Vehicle m y = \<lparr>make' = m, year = y\<rparr>"

definition new_Car :: "string \<Rightarrow> number \<Rightarrow> string \<Rightarrow> Car" where
  "new_Car m y d = Vehicle.extend (new_Vehicle m y) \<lparr>model = d\<rparr>"

definition getInfo :: "(number \<Rightarrow> string) \<Rightarrow> 'a Vehicle_scheme \<Rightarrow> console \<Rightarrow> console" where
  "getInfo ToString this out =
     console_log (''Make: '' @ make' this @ '', Year: '' @ ToString (year this)) out"

definition getModel :: "'a Car_scheme \<Rightarrow> console \<Rightarrow> console" where
  "getModel this out = console_log (''Model: '' @ model this) out"

text \<open>
  The conversion on the whole numbers from 0 on that are written without an exponent:
  their decimal digits. It instantiates \<open>ToString\<close> on concrete years.
\<close>

definition digit_char :: "nat \<Rightarrow> char" where
  "digit_char d = ''0123456789'' ! d"

function decimal :: "nat \<Rightarrow> string" where
  "decimal n = (if n < 10 then [digit_char n] else decimal (n div 10) @ [digit_char (n mod 10)])"
  by pat_completeness auto
termination
  by (relation "measure id") auto

definition whole_ToString :: "number \<Rightarrow> string" where
  "whole_ToString x = decimal (nat \<lfloor>x\<rfloor>)"

section \<open>processValue\<close>






section \<open>getMostExpensiveProduct\<close>

text \<open>
  \<^verbatim>\<open>
  function getMostExpensiveProduct(products: Product[]): Product | null {
      if (products.length === 0) {
          return null;
      }
      let maxProduct = products[0];
      for (const product of products) {
          if (product.price > maxProduct.price) {
              maxProduct = product;
          }
      }
      return maxProduct;
  }
  \<close>
  The function only reads its argument, which is taken by value; \<^verbatim>\<open>null\<close> is
  \<^const>\<open>None\<close>.
\<close>

record Product =
  name :: string
  price :: number

definition getMostExpensiveProduct :: "Product list \<Rightarrow> Product option" where
  "getMostExpensiveProduct products =
     (if length products = 0 then None
      else Some (fold (\<lambda>product maxProduct.
                         if price product > price maxProduct then product else maxProduct)
                   products (products ! 0)))"

section \<open>getDayType\<close>

text \<open>
  \<^verbatim>\<open>
  enum Day { Monday, Tuesday, Wednesday, Thursday, Friday, Saturday, Sunday }
  function getDayType(day: Day): string {
      if (day === Day.Saturday || day === Day.Sunday) {
          return "Weekend";
      }
      return "Weekday";
  }
  \<close>
\<close>

datatype Day = Monday | Tuesday | Wednesday | Thursday | Friday | Saturday | Sunday

definition getDayType :: "Day \<Rightarrow> string" where
  "getDayType day = (if day = Saturday \<or> day = Sunday then ''Weekend'' else ''Weekday'')"

section \<open>squareAsync\<close>

text \<open>
  \<^verbatim>\<open>
  async function squareAsync(n: number): Promise<number> {
      return new Promise<number>((resolve, reject) => {
          setTimeout(() => {
              if (n < 0) {
                  reject(new Error("Negative number not allowed"));
              } else {
                  resolve(n * n);
              }
          }, 1000);
      });
  }
  \<close>
  A promise is pending until it is settled, and it is settled once: \<open>resolve\<close> and
  \<open>reject\<close> change a pending promise only. The promise of the \<^verbatim>\<open>async\<close> function
  takes over the state of the promise its body returns; the model has the one promise.
  The comparison \<^verbatim>\<open>n < 0\<close> and the product \<^verbatim>\<open>n * n\<close> are those of the type of
  numbers, whatever it is. A call completes synchronously either by
  returning or by throwing. What \<open>squareAsync\<close> returns is its promise together with
  the timers it has scheduled, each a delay in milliseconds and the callback to run on
  the promise; \<open>run_timers\<close> is the event loop running the callbacks that are due.
\<close>

datatype js_error = Error string

datatype 'a promise_state = Pending | Fulfilled 'a | Rejected js_error

datatype 'a completion = Return 'a | Throw js_error

definition resolve :: "'a \<Rightarrow> 'a promise_state \<Rightarrow> 'a promise_state" where
  "resolve v p = (case p of Pending \<Rightarrow> Fulfilled v | _ \<Rightarrow> p)"

definition reject :: "js_error \<Rightarrow> 'a promise_state \<Rightarrow> 'a promise_state" where
  "reject e p = (case p of Pending \<Rightarrow> Rejected e | _ \<Rightarrow> p)"

record 'a scheduled =
  promise :: "'a promise_state"
  timers :: "(nat \<times> ('a promise_state \<Rightarrow> 'a promise_state)) list"

definition timeout_callback :: "'n::{zero,ord,times} \<Rightarrow> 'n promise_state \<Rightarrow> 'n promise_state" where
  "timeout_callback n p =
     (if n < 0 then reject (Error ''Negative number not allowed'') p
      else resolve (n * n) p)"

definition squareAsync :: "'n::{zero,ord,times} \<Rightarrow> 'n scheduled completion" where
  "squareAsync n = Return \<lparr>promise = Pending, timers = [(1000, timeout_callback n)]\<rparr>"

definition run_timers :: "'a scheduled \<Rightarrow> 'a scheduled" where
  "run_timers s = \<lparr>promise = fold (\<lambda>(delay, callback) p. callback p) (timers s) (promise s),
                   timers = []\<rparr>"

section \<open>Properties of the heap operations\<close>

lemma copy_loop:
  assumes "src < length h" "A < length h" "A \<noteq> src" "n \<le> length (h ! src)"
  shows "fold (\<lambda>k hk. if p (hk ! src ! k) then push A (hk ! src ! k) hk else hk) [0..<n] h
         = h[A := h ! A @ filter p (take n (h ! src))]"
  using assms(4)
proof (induction n)
  case 0
  then show ?case by simp
next
  case (Suc n)
  let ?xs = "h ! src"
  let ?hn = "h[A := h ! A @ filter p (take n ?xs)]"
  from Suc have n: "n < length ?xs" and
    IH: "fold (\<lambda>k hk. if p (hk ! src ! k) then push A (hk ! src ! k) hk else hk) [0..<n] h = ?hn"
    by simp_all
  have src: "?hn ! src = ?xs"
    using assms(3) by simp
  have tk: "take (Suc n) ?xs = take n ?xs @ [?xs ! n]"
    using n by (simp add: take_Suc_conv_app_nth)
  show ?case
    using assms(2) by (simp add: IH src tk push_def)
qed

lemma copy_elements_eq:
  assumes "src < length h" "A < length h" "A \<noteq> src"
  shows "copy_elements p src A h = h[A := h ! A @ filter p (h ! src)]"
  using copy_loop [OF assms, of "length (h ! src)" p] by (simp add: copy_elements_def Let_def)

lemma Array_filter_eq:
  assumes "src < length h"
  shows "Array_filter p src h = (length h, h @ [filter p (h ! src)])"
proof -
  have "copy_elements p src (length h) (h @ [[]]) = h @ [filter p (h ! src)]"
    using assms by (simp add: copy_elements_eq nth_append)
  then show ?thesis
    by (simp add: Array_filter_def new_Array_def)
qed

lemma Array_concat_eq:
  assumes "r < length h" "a < length h"
  shows "Array_concat r a h = (length h, h @ [h ! r @ h ! a])"
proof -
  have 1: "copy_elements (\<lambda>_. True) r (length h) (h @ [[]]) = h @ [h ! r]"
    using assms by (simp add: copy_elements_eq nth_append)
  have 2: "copy_elements (\<lambda>_. True) a (length h) (h @ [h ! r]) = h @ [h ! r @ h ! a]"
    using assms by (simp add: copy_elements_eq nth_append)
  show ?thesis
    by (simp add: Array_concat_def new_Array_def 1 2)
qed

lemma filterByRating_eq:
  assumes "present h items"
  shows "filterByRating items h
         = (length h, h @ [filter (\<lambda>item. 4 \<le> rating item) (h ! items)])"
  using assms by (simp add: filterByRating_def present_def Array_filter_eq)

lemma concat_loop:
  assumes "\<forall>a\<in>set arrays. a < length h0"
    and "length h0 \<le> result" "result < length hk"
    and "\<forall>a<length h0. hk ! a = h0 ! a"
    and "fold (\<lambda>array (result, hk). Array_concat result array hk) arrays (result, hk) = (r, h')"
  shows "length h0 \<le> r \<and> r < length h' \<and> (\<forall>a<length h0. h' ! a = h0 ! a)
         \<and> h' ! r = hk ! result @ concat (map ((!) h0) arrays)"
  using assms
proof (induction arrays arbitrary: result hk)
  case Nil
  then show ?case by simp
next
  case (Cons array arrays)
  let ?hk' = "hk @ [hk ! result @ hk ! array]"
  have a: "array < length h0" using Cons.prems(1) by simp
  then have ak: "array < length hk" using Cons.prems(2,3) by simp
  have step: "Array_concat result array hk = (length hk, ?hk')"
    using Cons.prems(3) ak by (rule Array_concat_eq)
  have rest: "fold (\<lambda>array (result, hk). Array_concat result array hk) arrays (length hk, ?hk')
              = (r, h')"
    using Cons.prems(5) by (simp add: step)
  have "length h0 \<le> r \<and> r < length h' \<and> (\<forall>a<length h0. h' ! a = h0 ! a)
         \<and> h' ! r = ?hk' ! length hk @ concat (map ((!) h0) arrays)"
  proof (rule Cons.IH [OF _ _ _ _ rest])
    show "\<forall>a\<in>set arrays. a < length h0" using Cons.prems(1) by simp
    show "length h0 \<le> length hk" using Cons.prems(2,3) by simp
    show "length hk < length ?hk'" by simp
    show "\<forall>a<length h0. ?hk' ! a = h0 ! a"
      using Cons.prems(2,3,4) by (simp add: nth_append)
  qed
  moreover have "hk ! array = h0 ! array"
    using a Cons.prems(4) by simp
  ultimately show ?case by simp
qed

section \<open>The rating filter\<close>

text \<open>
  C4. For every heap and every array \<open>items\<close> of rated records in it, the array that
  \<open>filterByRating\<close> returns holds exactly the records of \<open>items\<close> whose rating is at
  least 4, in their original order (it is a subsequence of \<open>items\<close>); it is empty when
  \<open>items\<close> is empty; it is a new array; and every array that was present, \<open>items\<close>
  among them, holds afterwards what it held before.
\<close>

theorem filterByRating_subsequence:
  "present h items \<Longrightarrow> filterByRating items h = (r, h') \<Longrightarrow>
     h' ! r = filter (\<lambda>item. 4 \<le> rating item) (h ! items)
   \<and> subseq (h' ! r) (h ! items)
   \<and> (h ! items = [] \<longrightarrow> h' ! r = [])
   \<and> \<not> present h r \<and> present h' r
   \<and> (\<forall>a. present h a \<longrightarrow> h' ! a = h ! a)"
  by (auto simp: filterByRating_eq present_def nth_append)

theorem filterByRating_subsequence_witness:
  "present [[\<lparr>title = ''A'', rating = 5\<rparr>, \<lparr>title = ''B'', rating = 3.5\<rparr>,
             \<lparr>title = ''C'', rating = 4\<rparr>]] 0
   \<and> filterByRating 0 [[\<lparr>title = ''A'', rating = 5\<rparr>, \<lparr>title = ''B'', rating = 3.5\<rparr>,
                         \<lparr>title = ''C'', rating = 4\<rparr>]]
     = (1, [[\<lparr>title = ''A'', rating = 5\<rparr>, \<lparr>title = ''B'', rating = 3.5\<rparr>,
             \<lparr>title = ''C'', rating = 4\<rparr>],
            [\<lparr>title = ''A'', rating = 5\<rparr>, \<lparr>title = ''C'', rating = 4\<rparr>]])
   \<and> subseq [\<lparr>title = ''A'', rating = 5\<rparr>, \<lparr>title = ''C'', rating = 4\<rparr>]
        [\<lparr>title = ''A'', rating = 5\<rparr>, \<lparr>title = ''B'', rating = 3.5\<rparr>,
         \<lparr>title = ''C'', rating = 4\<rparr>]"
proof -
  let ?R = "[\<lparr>title = ''A'', rating = 5\<rparr>, \<lparr>title = ''B'', rating = 3.5\<rparr>,
             \<lparr>title = ''C'', rating = 4\<rparr>]"
  let ?F = "[\<lparr>title = ''A'', rating = 5\<rparr>, \<lparr>title = ''C'', rating = 4\<rparr>]"
  have p: "present [?R] 0"
    by (simp add: present_def)
  have run: "filterByRating 0 [?R] = (1, [?R, ?F])"
    by code_simp
  from filterByRating_subsequence [OF p run] have "subseq ?F ?R"
    by simp
  with p run show ?thesis by simp
qed

text \<open>
  C10. Filtering twice gives what filtering once gives: for every heap and every array
  \<open>items\<close> in it, the array returned by \<open>filterByRating\<close> on the result of
  \<open>filterByRating\<close> holds the same records, in the same order, as that result.
\<close>

theorem filterByRating_idempotent:
  "present h items \<Longrightarrow> filterByRating items h = (r1, h1) \<Longrightarrow>
   filterByRating r1 h1 = (r2, h2) \<Longrightarrow>
     h2 ! r2 = h1 ! r1 \<and> h2 ! r2 = filter (\<lambda>item. 4 \<le> rating item) (h ! items)"
  by (auto simp: filterByRating_eq present_def nth_append)

theorem filterByRating_idempotent_witness:
  "present [[\<lparr>title = ''A'', rating = 2\<rparr>, \<lparr>title = ''B'', rating = 4.5\<rparr>]] 0
   \<and> filterByRating 0 [[\<lparr>title = ''A'', rating = 2\<rparr>, \<lparr>title = ''B'', rating = 4.5\<rparr>]]
     = (1, [[\<lparr>title = ''A'', rating = 2\<rparr>, \<lparr>title = ''B'', rating = 4.5\<rparr>],
            [\<lparr>title = ''B'', rating = 4.5\<rparr>]])
   \<and> filterByRating 1 [[\<lparr>title = ''A'', rating = 2\<rparr>, \<lparr>title = ''B'', rating = 4.5\<rparr>],
                        [\<lparr>title = ''B'', rating = 4.5\<rparr>]]
     = (2, [[\<lparr>title = ''A'', rating = 2\<rparr>, \<lparr>title = ''B'', rating = 4.5\<rparr>],
            [\<lparr>title = ''B'', rating = 4.5\<rparr>], [\<lparr>title = ''B'', rating = 4.5\<rparr>]])"
proof -
  let ?R = "[\<lparr>title = ''A'', rating = 2\<rparr>, \<lparr>title = ''B'', rating = 4.5\<rparr>]"
  let ?F = "[\<lparr>title = ''B'', rating = 4.5\<rparr>]"
  have p: "present [?R] 0"
    by (simp add: present_def)
  have run1: "filterByRating 0 [?R] = (1, [?R, ?F])"
    by code_simp
  obtain r2 h2 where run2: "filterByRating 1 [?R, ?F] = (r2, h2)"
    by (cases "filterByRating 1 [?R, ?F]")
  have "r2 = 2 \<and> h2 = [?R, ?F, ?F]"
    using run2 by (simp add: filterByRating_eq present_def)
  moreover from filterByRating_idempotent [OF p run1 run2] have "h2 ! r2 = ?F"
    by simp
  ultimately show ?thesis using p run1 run2 by simp
qed

section \<open>Concatenation\<close>

text \<open>
  C5. For every heap and every finite sequence of arrays in it, \<open>concatenateArrays\<close>
  returns a new array that holds the elements of the first array, then those of the
  second, and so on, each in its order, so that its length is the sum of the lengths
  of the inputs; for three arrays it is the first followed by the second followed by
  the third; with no input array it is empty. No array that was present is changed.
\<close>

theorem concatenateArrays_in_order:
  "\<forall>a\<in>set arrays. present h a \<Longrightarrow> concatenateArrays arrays h = (r, h') \<Longrightarrow>
     h' ! r = concat (map ((!) h) arrays)
   \<and> length (h' ! r) = sum_list (map (\<lambda>a. length (h ! a)) arrays)
   \<and> (arrays = [] \<longrightarrow> h' ! r = [])
   \<and> (\<forall>a b c. arrays = [a, b, c] \<longrightarrow> h' ! r = h ! a @ h ! b @ h ! c)
   \<and> \<not> present h r \<and> present h' r
   \<and> (\<forall>a. present h a \<longrightarrow> h' ! a = h ! a)"
proof -
  assume pres: "\<forall>a\<in>set arrays. present h a" and run: "concatenateArrays arrays h = (r, h')"
  have "length h \<le> r \<and> r < length h' \<and> (\<forall>a<length h. h' ! a = h ! a)
         \<and> h' ! r = (h @ [[]]) ! length h @ concat (map ((!) h) arrays)"
  proof (rule concat_loop)
    show "\<forall>a\<in>set arrays. a < length h"
      using pres by (simp add: present_def)
    show "fold (\<lambda>array (result, hk). Array_concat result array hk) arrays (length h, h @ [[]])
          = (r, h')"
      using run by (simp add: concatenateArrays_def new_Array_def)
  qed (simp_all add: nth_append)
  then have res: "h' ! r = concat (map ((!) h) arrays)"
    and new: "length h \<le> r" "r < length h'"
    and same: "\<forall>a<length h. h' ! a = h ! a"
    by simp_all
  have len: "length (h' ! r) = sum_list (map (\<lambda>a. length (h ! a)) arrays)"
    by (simp add: res length_concat comp_def)
  show ?thesis
    using res len new same by (simp add: present_def)
qed

theorem concatenateArrays_in_order_witness:
  "present [[1::nat, 2], [3], [4, 5]] 0 \<and> present [[1::nat, 2], [3], [4, 5]] 1
   \<and> present [[1::nat, 2], [3], [4, 5]] 2
   \<and> concatenateArrays [0, 1, 2] [[1::nat, 2], [3], [4, 5]]
     = (6, [[1, 2], [3], [4, 5], [], [1, 2], [1, 2, 3], [1, 2, 3, 4, 5]])
   \<and> length [1::nat, 2, 3, 4, 5] = length [1::nat, 2] + length [3::nat] + length [4::nat, 5]"
proof -
  let ?h = "[[1::nat, 2], [3], [4, 5]]"
  let ?h' = "[[1::nat, 2], [3], [4, 5], [], [1, 2], [1, 2, 3], [1, 2, 3, 4, 5]]"
  have p: "\<forall>a\<in>set [0, 1, 2]. present ?h a"
    by (simp add: present_def)
  have run: "concatenateArrays [0, 1, 2] ?h = (6, ?h')"
    by code_simp
  from concatenateArrays_in_order [OF p run]
  have "length (?h' ! 6) = sum_list (map (\<lambda>a. length (?h ! a)) [0, 1, 2])"
    by blast
  then have "length [1::nat, 2, 3, 4, 5] = length [1::nat, 2] + length [3::nat] + length [4::nat, 5]"
    by simp
  with p run show ?thesis by simp
qed

section \<open>The most expensive product\<close>

lemma scan_max:
  fixes xs :: "Product list"
  defines "step \<equiv> (\<lambda>product maxProduct.
                      if price product > price maxProduct then product else maxProduct)"
  shows "(fold step xs m = m \<and> (\<forall>x\<in>set xs. price x \<le> price m))
       \<or> (\<exists>i<length xs. fold step xs m = xs ! i \<and> price m < price (xs ! i)
            \<and> (\<forall>j<length xs. price (xs ! j) \<le> price (xs ! i))
            \<and> (\<forall>j<i. price (xs ! j) < price (xs ! i)))"
proof (induction xs arbitrary: m)
  case Nil
  then show ?case by simp
next
  case (Cons x xs)
  show ?case
  proof (cases "price x > price m")
    case True
    then have f: "fold step (x # xs) m = fold step xs x"
      by (simp add: step_def)
    from Cons.IH [of x] show ?thesis
    proof (elim disjE conjE exE)
      assume "fold step xs x = x" "\<forall>y\<in>set xs. price y \<le> price x"
      then have "0 < length (x # xs) \<and> fold step (x # xs) m = (x # xs) ! 0
            \<and> price m < price ((x # xs) ! 0)
            \<and> (\<forall>j<length (x # xs). price ((x # xs) ! j) \<le> price ((x # xs) ! 0))
            \<and> (\<forall>j<0. price ((x # xs) ! j) < price ((x # xs) ! 0))"
        using True f by (auto simp: nth_Cons')
      then show ?thesis by blast
    next
      fix i
      assume "i < length xs" "fold step xs x = xs ! i" "price x < price (xs ! i)"
        "\<forall>j<length xs. price (xs ! j) \<le> price (xs ! i)"
        "\<forall>j<i. price (xs ! j) < price (xs ! i)"
      then have "Suc i < length (x # xs) \<and> fold step (x # xs) m = (x # xs) ! Suc i
            \<and> price m < price ((x # xs) ! Suc i)
            \<and> (\<forall>j<length (x # xs). price ((x # xs) ! j) \<le> price ((x # xs) ! Suc i))
            \<and> (\<forall>j<Suc i. price ((x # xs) ! j) < price ((x # xs) ! Suc i))"
        using True f by (auto simp: nth_Cons split: nat.splits)
      then show ?thesis by blast
    qed
  next
    case False
    then have f: "fold step (x # xs) m = fold step xs m"
      by (simp add: step_def)
    from Cons.IH [of m] show ?thesis
    proof (elim disjE conjE exE)
      assume "fold step xs m = m" "\<forall>y\<in>set xs. price y \<le> price m"
      then show ?thesis using False f by auto
    next
      fix i
      assume "i < length xs" "fold step xs m = xs ! i" "price m < price (xs ! i)"
        "\<forall>j<length xs. price (xs ! j) \<le> price (xs ! i)"
        "\<forall>j<i. price (xs ! j) < price (xs ! i)"
      then have "Suc i < length (x # xs) \<and> fold step (x # xs) m = (x # xs) ! Suc i
            \<and> price m < price ((x # xs) ! Suc i)
            \<and> (\<forall>j<length (x # xs). price ((x # xs) ! j) \<le> price ((x # xs) ! Suc i))
            \<and> (\<forall>j<Suc i. price ((x # xs) ! j) < price ((x # xs) ! Suc i))"
        using False f by (auto simp: nth_Cons split: nat.splits)
      then show ?thesis by blast
    qed
  qed
qed

text \<open>
  C1. On the empty list \<open>getMostExpensiveProduct\<close> returns the absence value and no
  error. On every non-empty list it returns the record at some position \<open>i\<close> such that
  no record of the list has a greater price and every record before position \<open>i\<close> has
  a strictly smaller price: the greatest price, and among the records that have it the
  first one, a later record of equal price not replacing it.
\<close>

theorem getMostExpensiveProduct_first_maximum:
  "getMostExpensiveProduct [] = None
   \<and> (products \<noteq> [] \<longrightarrow>
        (\<exists>i<length products. getMostExpensiveProduct products = Some (products ! i)
           \<and> (\<forall>j<length products. price (products ! j) \<le> price (products ! i))
           \<and> (\<forall>j<i. price (products ! j) < price (products ! i))))"
proof (cases products)
  case Nil
  then show ?thesis by (simp add: getMostExpensiveProduct_def)
next
  case (Cons x xs)
  let ?step = "\<lambda>product maxProduct.
                 if price product > price maxProduct then product else maxProduct"
  have res: "getMostExpensiveProduct products = Some (fold ?step xs x)"
    using Cons by (simp add: getMostExpensiveProduct_def)
  from scan_max [of xs x] have
    "\<exists>i<length products. fold ?step xs x = products ! i
           \<and> (\<forall>j<length products. price (products ! j) \<le> price (products ! i))
           \<and> (\<forall>j<i. price (products ! j) < price (products ! i))"
  proof (elim disjE conjE exE)
    assume "fold ?step xs x = x" "\<forall>y\<in>set xs. price y \<le> price x"
    then have "0 < length products \<and> fold ?step xs x = products ! 0
           \<and> (\<forall>j<length products. price (products ! j) \<le> price (products ! 0))
           \<and> (\<forall>j<0. price (products ! j) < price (products ! 0))"
      using Cons by (auto simp: nth_Cons')
    then show ?thesis by blast
  next
    fix i
    assume "i < length xs" "fold ?step xs x = xs ! i" "price x < price (xs ! i)"
      "\<forall>j<length xs. price (xs ! j) \<le> price (xs ! i)"
      "\<forall>j<i. price (xs ! j) < price (xs ! i)"
    then have "Suc i < length products \<and> fold ?step xs x = products ! Suc i
           \<and> (\<forall>j<length products. price (products ! j) \<le> price (products ! Suc i))
           \<and> (\<forall>j<Suc i. price (products ! j) < price (products ! Suc i))"
      using Cons by (auto simp: nth_Cons split: nat.splits)
    then show ?thesis by blast
  qed
  moreover have "getMostExpensiveProduct [] = None"
    by (simp add: getMostExpensiveProduct_def)
  ultimately show ?thesis using res by simp
qed

theorem getMostExpensiveProduct_first_maximum_witness:
  "[\<lparr>name = ''A'', price = 10\<rparr>, \<lparr>name = ''B'', price = 20\<rparr>, \<lparr>name = ''C'', price = 20\<rparr>] \<noteq> []
   \<and> getMostExpensiveProduct
       [\<lparr>name = ''A'', price = 10\<rparr>, \<lparr>name = ''B'', price = 20\<rparr>, \<lparr>name = ''C'', price = 20\<rparr>]
     = Some \<lparr>name = ''B'', price = 20\<rparr>
   \<and> (\<exists>i<length [\<lparr>name = ''A'', price = 10\<rparr>, \<lparr>name = ''B'', price = 20\<rparr>,
                    \<lparr>name = ''C'', price = 20\<rparr>].
          getMostExpensiveProduct
            [\<lparr>name = ''A'', price = 10\<rparr>, \<lparr>name = ''B'', price = 20\<rparr>,
             \<lparr>name = ''C'', price = 20\<rparr>]
          = Some ([\<lparr>name = ''A'', price = 10\<rparr>, \<lparr>name = ''B'', price = 20\<rparr>,
                   \<lparr>name = ''C'', price = 20\<rparr>] ! i))"
proof -
  let ?P = "[\<lparr>name = ''A'', price = 10\<rparr>, \<lparr>name = ''B'', price = 20\<rparr>,
             \<lparr>name = ''C'', price = 20\<rparr>]"
  have ne: "?P \<noteq> []"
    by simp
  have val: "getMostExpensiveProduct ?P = Some \<lparr>name = ''B'', price = 20\<rparr>"
    by (simp add: getMostExpensiveProduct_def)
  from getMostExpensiveProduct_first_maximum [of ?P] ne
  have "\<exists>i<length ?P. getMostExpensiveProduct ?P = Some (?P ! i)"
    by blast
  with ne val show ?thesis by blast
qed

section \<open>Case conversion\<close>

text \<open>
  C3. For every string \<open>s\<close>, \<open>formatString\<close> with the flag \<open>false\<close> is the platform's
  lower-case form of \<open>s\<close>, and with the flag \<open>true\<close> and with the flag omitted it is the
  platform's upper-case form of \<open>s\<close>, whatever the two conversions do on \<open>s\<close>. Where
  they turn \<open>Hello, World 42\<close> into \<open>hello, world 42\<close> and \<open>HELLO, WORLD 42\<close>, these
  are the results of \<open>formatString\<close> on it.
\<close>

theorem formatString_by_flag:
  "formatString toLowerCase toUpperCase s (Some False) = toLowerCase s
   \<and> formatString toLowerCase toUpperCase s (Some True) = toUpperCase s
   \<and> formatString toLowerCase toUpperCase s None = toUpperCase s
   \<and> (toLowerCase (code_units ''Hello, World 42'') = code_units ''hello, world 42''
        \<and> toUpperCase (code_units ''Hello, World 42'') = code_units ''HELLO, WORLD 42'' \<longrightarrow>
          formatString toLowerCase toUpperCase (code_units ''Hello, World 42'') (Some False)
          = code_units ''hello, world 42''
        \<and> formatString toLowerCase toUpperCase (code_units ''Hello, World 42'') (Some True)
          = code_units ''HELLO, WORLD 42''
        \<and> formatString toLowerCase toUpperCase (code_units ''Hello, World 42'') None
          = code_units ''HELLO, WORLD 42'')"
  by (simp add: formatString_def)

theorem formatString_by_flag_witness:
  "ascii_toLowerCase (code_units ''Hello, World 42'') = code_units ''hello, world 42''
   \<and> ascii_toUpperCase (code_units ''Hello, World 42'') = code_units ''HELLO, WORLD 42''
   \<and> formatString ascii_toLowerCase ascii_toUpperCase (code_units ''Hello, World 42'')
        (Some False) = code_units ''hello, world 42''
   \<and> formatString ascii_toLowerCase ascii_toUpperCase (code_units ''Hello, World 42'')
        (Some True) = code_units ''HELLO, WORLD 42''
   \<and> formatString ascii_toLowerCase ascii_toUpperCase (code_units ''Hello, World 42'')
        None = code_units ''HELLO, WORLD 42''"
proof -
  have lower: "ascii_toLowerCase (code_units ''Hello, World 42'') = code_units ''hello, world 42''"
    by (simp add: ascii_toLowerCase_def ascii_lower_unit_def code_units_def)
  have upper: "ascii_toUpperCase (code_units ''Hello, World 42'') = code_units ''HELLO, WORLD 42''"
    by (simp add: ascii_toUpperCase_def ascii_upper_unit_def code_units_def)
  from formatString_by_flag [of ascii_toLowerCase ascii_toUpperCase] lower upper
  show ?thesis by blast
qed

section \<open>The string-or-number dispatch\<close>





section \<open>The weekday classifier\<close>

text \<open>
  C7. \<open>getDayType\<close> gives a label to each of the seven days: \<open>Weekend\<close> to Saturday and
  to Sunday and to no other day, and \<open>Weekday\<close> to each of the other five.
\<close>

theorem getDayType_total:
  "getDayType Monday = ''Weekday'' \<and> getDayType Tuesday = ''Weekday''
   \<and> getDayType Wednesday = ''Weekday'' \<and> getDayType Thursday = ''Weekday''
   \<and> getDayType Friday = ''Weekday''
   \<and> getDayType Saturday = ''Weekend'' \<and> getDayType Sunday = ''Weekend''
   \<and> (getDayType day = ''Weekend'') = (day = Saturday \<or> day = Sunday)
   \<and> (getDayType day = ''Weekday'') = (day \<noteq> Saturday \<and> day \<noteq> Sunday)"
  by (simp add: getDayType_def)

section \<open>The vehicle hierarchy\<close>

text \<open>
  C8. For every make \<open>m\<close>, year \<open>y\<close> and model \<open>d\<close>, and whatever was printed before,
  \<open>getInfo\<close> on the car built from them prints the one line \<open>Make: m, Year: y\<close>, the
  year rendered by the platform's conversion, which is the line that \<open>getInfo\<close> prints
  on the vehicle built from \<open>m\<close> and \<open>y\<close>; and \<open>getModel\<close> on the car prints the one
  line \<open>Model: d\<close>, whatever \<open>m\<close> and \<open>y\<close> are. With the year 2020 rendered as \<open>2020\<close>,
  the car of make Toyota, year 2020 and model Corolla prints \<open>Make: Toyota, Year: 2020\<close>
  and \<open>Model: Corolla\<close>.
\<close>

theorem Car_display_lines:
  "getInfo ToString (new_Car m y d) out = out @ [''Make: '' @ m @ '', Year: '' @ ToString y]
   \<and> getInfo ToString (new_Car m y d) out = getInfo ToString (new_Vehicle m y) out
   \<and> getModel (new_Car m y d) out = out @ [''Model: '' @ d]
   \<and> (ToString 2020 = ''2020'' \<longrightarrow>
          getInfo ToString (new_Car ''Toyota'' 2020 ''Corolla'') [] = [''Make: Toyota, Year: 2020'']
        \<and> getModel (new_Car ''Toyota'' 2020 ''Corolla'') [] = [''Model: Corolla''])"
  by (simp add: getInfo_def getModel_def new_Car_def new_Vehicle_def console_log_def
      Vehicle.defs)

theorem Car_display_lines_witness:
  "whole_ToString 2020 = ''2020''
   \<and> getInfo whole_ToString (new_Car ''Toyota'' 2020 ''Corolla'') []
     = [''Make: Toyota, Year: 2020'']
   \<and> getModel (new_Car ''Toyota'' 2020 ''Corolla'') [] = [''Model: Corolla'']"
proof -
  have year: "whole_ToString 2020 = ''2020''"
    by (simp add: whole_ToString_def digit_char_def)
  with Car_display_lines [of whole_ToString] show ?thesis
    by blast
qed

section \<open>The deferred square\<close>

text \<open>
  C2. For every number \<open>n\<close>, of whatever type of numbers, the call of \<open>squareAsync\<close>
  returns, throwing nothing, a promise that is still pending. When the timer has run,
  the promise is fulfilled with the product \<open>n * n\<close> of that type if \<open>n\<close> is not
  negative; if \<open>n\<close> is negative it is rejected with the error whose message is
  \<open>Negative number not allowed\<close>, it is not fulfilled with any value, and no later
  attempt to resolve it changes it.
\<close>

theorem squareAsync_settles:
  "\<exists>s. squareAsync n = Return s \<and> promise s = Pending
     \<and> (\<not> n < 0 \<longrightarrow> promise (run_timers s) = Fulfilled (n * n))
     \<and> (n < 0 \<longrightarrow>
          promise (run_timers s) = Rejected (Error ''Negative number not allowed'')
        \<and> (\<forall>v. promise (run_timers s) \<noteq> Fulfilled v)
        \<and> (\<forall>v. resolve v (promise (run_timers s)) = promise (run_timers s)))"
  by (simp add: squareAsync_def run_timers_def timeout_callback_def resolve_def reject_def)

theorem squareAsync_settles_witness:
  "(- 3 :: real) < 0 \<and> \<not> (5 :: real) < 0
   \<and> (\<exists>s. squareAsync (- 3 :: real) = Return s \<and> promise s = Pending
        \<and> promise (run_timers s) = Rejected (Error ''Negative number not allowed''))
   \<and> (\<exists>s. squareAsync (5 :: real) = Return s \<and> promise s = Pending
        \<and> promise (run_timers s) = Fulfilled 25)"
  using squareAsync_settles [of "- 3 :: real"] squareAsync_settles [of "5 :: real"] by auto

text \<open>
  The message of the rejection is not the all-lower-case \<open>negative number not allowed\<close>:
  the promise of \<open>squareAsync (- 3)\<close> is not rejected with that message.
\<close>

theorem squareAsync_message_counterexample:
  "\<not> (\<exists>s. squareAsync (- 3 :: real) = Return s
          \<and> promise (run_timers s) = Rejected (Error ''negative number not allowed''))"
  by (simp add: squareAsync_def run_timers_def timeout_callback_def resolve_def reject_def)

text \<open>
  C9. The call \<open>squareAsync 0\<close> is fulfilled with 0: zero is not below zero, so the
  callback takes the resolving branch.
\<close>

theorem squareAsync_zero:
  "timeout_callback (0 :: number) Pending = Fulfilled 0
   \<and> (\<exists>s. squareAsync (0 :: number) = Return s \<and> promise s = Pending
          \<and> promise (run_timers s) = Fulfilled 0)"
  by (simp add: squareAsync_def run_timers_def timeout_callback_def resolve_def)

end
